theory Spec2Isabelle
  imports Complex_Main "HOL-Library.Word"
begin

text \<open>
  The search page of the legal document portal, \<open>frontend/src/App.jsx\<close>: its four state
  cells, the handlers \<open>handleSearch\<close> and \<open>handleKeyPress\<close>, the conditions under
  which each panel is rendered, and the page as a machine driven by user and network
  events. A handler is modelled by the list of setter and \<open>fetch\<close> calls it makes, in
  program order; \<open>handleSearch\<close>, an async function, is cut at its \<open>await\<close>.
\<close>

section \<open>JavaScript values\<close>

text \<open>
  A JavaScript string is a sequence of 16-bit code units. Literals of the source are
  ASCII, so \<open>js\<close> maps each character of a HOL literal to its code unit.
\<close>

type_synonym js_string = "16 word list"

definition js :: "string \<Rightarrow> js_string" where
  "js s = map of_char s"

text \<open>
  The values a state cell, a parsed JSON body or an error's \<open>message\<close> can hold.
  A number carries its value (every finite double is a rational; \<open>-0\<close> is identified
  with \<open>0\<close>, both are falsy; an infinity, which only an overflowing literal gives and
  which is truthy like every other non-zero number, is left out, and JSON has no NaN).
  An object is its list of properties in order.
\<close>

datatype js_value =
    JUndefined
  | JNull
  | JBool bool
  | JNum rat
  | JStr js_string
  | JArr "js_value list"
  | JObj "(js_string \<times> js_value) list"

text \<open>ToBoolean: what \<open>!x\<close>, \<open>x && y\<close> and \<open>x || y\<close> test.\<close>

fun truthy :: "js_value \<Rightarrow> bool" where
  "truthy JUndefined = False"
| "truthy JNull = False"
| "truthy (JBool b) = b"
| "truthy (JNum n) = (n \<noteq> 0)"
| "truthy (JStr s) = (s \<noteq> [])"
| "truthy (JArr xs) = True"
| "truthy (JObj ps) = True"

definition js_or :: "js_value \<Rightarrow> js_value \<Rightarrow> js_value" where
  "js_or a b = (if truthy a then a else b)"

text \<open>\<open>typeof v === "string"\<close> and \<open>typeof v === "number"\<close>.\<close>

definition is_string :: "js_value \<Rightarrow> bool" where
  "is_string v = (case v of JStr s \<Rightarrow> True | _ \<Rightarrow> False)"

definition is_number :: "js_value \<Rightarrow> bool" where
  "is_number v = (case v of JNum n \<Rightarrow> True | _ \<Rightarrow> False)"

text \<open>
  \<open>String.prototype.trim\<close> strips, at both ends, the code units of WhiteSpace and
  LineTerminator: TAB, LF, VT, FF, CR, SPACE, NBSP, U+1680, U+2000 to U+200A, U+2028,
  U+2029, U+202F, U+205F, U+3000 and U+FEFF.
\<close>

definition is_white_space :: "16 word \<Rightarrow> bool" where
  "is_white_space c \<longleftrightarrow>
     c = 0x09 \<or> c = 0x0A \<or> c = 0x0B \<or> c = 0x0C \<or> c = 0x0D \<or> c = 0x20 \<or> c = 0xA0 \<or>
     c = 0x1680 \<or> (0x2000 \<le> c \<and> c \<le> 0x200A) \<or> c = 0x2028 \<or> c = 0x2029 \<or>
     c = 0x202F \<or> c = 0x205F \<or> c = 0x3000 \<or> c = 0xFEFF"

definition trim :: "js_string \<Rightarrow> js_string" where
  "trim s = rev (dropWhile is_white_space (rev (dropWhile is_white_space s)))"

text \<open>
  A number in a template literal: \<open>res.status\<close> is a non-negative integer, printed in
  decimal without leading zeros.
\<close>

definition digit :: "nat \<Rightarrow> 16 word" where
  "digit d = 0x30 + of_nat d"

function toString :: "nat \<Rightarrow> js_string" where
  "toString n = (if n < 10 then [digit n] else toString (n div 10) @ [digit (n mod 10)])"
  by pat_completeness auto
termination
  by (relation "measure id") auto

declare toString.simps [simp del]

text \<open>The number a string of decimal digits stands for.\<close>

definition digits_value :: "js_string \<Rightarrow> nat" where
  "digits_value ds = foldl (\<lambda>a d. 10 * a + unat (d - 0x30)) 0 ds"

section \<open>The component's state and its effects\<close>

text \<open>The four \<open>useState\<close> cells of \<open>App\<close> (lines 5 to 8).\<close>

record app =
  query :: js_string
  response :: js_value
  loading :: bool
  error :: js_value

definition init :: app where
  "init = \<lparr>query = [], response = JNull, loading = False, error = JNull\<rparr>"

text \<open>
  The request \<open>fetch\<close> is called with; \<open>req_method\<close> is its \<open>method\<close> option. The
  body is the document the source passes to \<open>JSON.stringify\<close>; the constructor stands
  for its serialisation.
\<close>

datatype body_text = JSON_stringify js_value

record request =
  url :: js_string
  req_method :: js_string
  headers :: "(js_string \<times> js_string) list"
  body :: body_text

text \<open>
  What a handler does, in program order: calls of the four setters and of \<open>fetch\<close>.
\<close>

datatype effect =
    SetQuery js_string
  | SetResponse js_value
  | SetLoading bool
  | SetError js_value
  | Fetch request

fun apply_effect :: "effect \<Rightarrow> app \<Rightarrow> app" where
  "apply_effect (SetQuery v) s = s\<lparr>query := v\<rparr>"
| "apply_effect (SetResponse v) s = s\<lparr>response := v\<rparr>"
| "apply_effect (SetLoading b) s = s\<lparr>loading := b\<rparr>"
| "apply_effect (SetError v) s = s\<lparr>error := v\<rparr>"
| "apply_effect (Fetch r) s = s"

definition perform :: "effect list \<Rightarrow> app \<Rightarrow> app" where
  "perform es s = fold apply_effect es s"

fun fetches :: "effect list \<Rightarrow> request list" where
  "fetches [] = []"
| "fetches (Fetch r # es) = r # fetches es"
| "fetches (e # es) = fetches es"

section \<open>How the network call ends\<close>

text \<open>
  A thrown error is an object with a \<open>message\<close> (undefined when it has none).
  \<open>await fetch(...)\<close> either rejects with an error or resolves with a response; the
  response has a status and, when \<open>res.json()\<close> is awaited, either rejects (the body does
  not decode) or resolves with the parsed value. \<open>res.ok\<close> is true for the statuses 200
  to 299.
\<close>

datatype js_error = Error (message: js_value)

datatype json_result = JsonResolved js_value | JsonRejected js_error

record http_response =
  status :: nat
  json :: json_result

datatype fetch_result = FetchResolved http_response | FetchRejected js_error

definition ok :: "http_response \<Rightarrow> bool" where
  "ok res \<longleftrightarrow> 200 \<le> status res \<and> status res \<le> 299"

section \<open>handleSearch\<close>

text \<open>
  Lines 11 to 27: the synchronous part of \<open>handleSearch\<close>, up to the \<open>await\<close> of the
  \<open>fetch\<close> call. \<open>q\<close> is the \<open>query\<close> cell the handler closes over.
\<close>

definition handleSearch :: "js_string \<Rightarrow> effect list" where
  "handleSearch q =
     (if \<not> truthy (JStr (trim q)) then
        [SetError (JStr (js ''Please enter a search query''))]
      else
        [SetLoading True,
         SetError JNull,
         SetResponse JNull,
         Fetch \<lparr>url = js ''http://localhost:8000/generate'',
                req_method = js ''POST'',
                headers = [(js ''Content-Type'', js ''application/json'')],
                body = JSON_stringify (JObj [(js ''query'', JStr (trim q))])\<rparr>])"

text \<open>The \<open>catch\<close> block, lines 35 to 39.\<close>

definition catch :: "js_error \<Rightarrow> effect list" where
  "catch err =
     [SetError (js_or (message err)
        (JStr (js ''Failed to fetch response. Please ensure the backend is running.'')))]"

text \<open>
  Lines 27 to 42: what \<open>handleSearch\<close> does once the awaited \<open>fetch\<close> has settled with
  \<open>r\<close>: the rest of the \<open>try\<close> block, the \<open>catch\<close> block when something was thrown, and
  the \<open>finally\<close> block.
\<close>

definition handleSearch_resume :: "fetch_result \<Rightarrow> effect list" where
  "handleSearch_resume r =
     (case r of
        FetchRejected err \<Rightarrow> catch err
      | FetchResolved res \<Rightarrow>
          if \<not> ok res then
            catch (Error (JStr (js ''HTTP error! status: '' @ toString (status res))))
          else
            (case json res of
               JsonRejected err \<Rightarrow> catch err
             | JsonResolved data \<Rightarrow> [SetResponse data]))
     @ [SetLoading False]"

text \<open>
  One whole call of \<open>handleSearch\<close> whose request settles with \<open>r\<close>: the continuation
  runs only when the synchronous part reached the \<open>fetch\<close>.
\<close>

definition handleSearch_run :: "js_string \<Rightarrow> fetch_result \<Rightarrow> effect list" where
  "handleSearch_run q r =
     (if fetches (handleSearch q) = [] then handleSearch q
      else handleSearch q @ handleSearch_resume r)"

section \<open>What is rendered\<close>

text \<open>
  The conditions of the returned markup: the error banner (line 107), the result panel
  (line 118), the spinner and the disabled controls (lines 84, 88 and 91) and the
  initial panel (line 170). \<open>response_display_shown\<close> is the guard of the result panel
  alone; what the panel does with the response is \<open>response_display\<close> below.
\<close>

definition error_message_shown :: "app \<Rightarrow> bool" where
  "error_message_shown s \<longleftrightarrow> truthy (error s)"

definition response_display_shown :: "app \<Rightarrow> bool" where
  "response_display_shown s \<longleftrightarrow> truthy (response s)"

definition initial_state_shown :: "app \<Rightarrow> bool" where
  "initial_state_shown s \<longleftrightarrow> \<not> truthy (response s) \<and> \<not> loading s \<and> \<not> truthy (error s)"

text \<open>
  Reading a property of a value that is neither null nor undefined: the own property of
  an object (a parsed object has each key once), undefined otherwise. None of the names
  the component reads (\<open>summary\<close>, \<open>relevant_docs\<close>, \<open>doc_id\<close>, \<open>title\<close>, \<open>excerpt\<close>,
  \<open>relevance_score\<close>) is a property of a string, a number, a boolean or an array.
\<close>

definition js_get :: "js_value \<Rightarrow> js_string \<Rightarrow> js_value" where
  "js_get v k =
     (case v of
        JObj ps \<Rightarrow> (case map_of ps k of Some x \<Rightarrow> x | None \<Rightarrow> JUndefined)
      | _ \<Rightarrow> JUndefined)"

text \<open>
  What can stand between braces in the markup: a string, a number, a boolean, null,
  undefined or an array of such; rendering an object throws.
\<close>

fun child_ok :: "js_value \<Rightarrow> bool" where
  "child_ok (JObj ps) = False"
| "child_ok (JArr xs) = list_all child_ok xs"
| "child_ok v = True"

text \<open>
  One item of the list, lines 141 to 162: \<open>doc.title\<close>, \<open>doc.excerpt\<close> and \<open>doc.doc_id\<close>
  are rendered, which throws when \<open>doc\<close> is null; \<open>(doc.relevance_score * 100).toFixed(0)\<close>
  is a string for every value.
\<close>

definition doc_ok :: "js_value \<Rightarrow> bool" where
  "doc_ok doc \<longleftrightarrow>
     doc \<noteq> JNull \<and> doc \<noteq> JUndefined
     \<and> child_ok (js_get doc (js ''title''))
     \<and> child_ok (js_get doc (js ''excerpt''))
     \<and> child_ok (js_get doc (js ''doc_id''))"

text \<open>
  The result panel as a whole, lines 118 to 167, for the value \<open>v\<close> of the response
  cell: nothing when \<open>v\<close> is falsy; otherwise \<open>v.summary\<close> is rendered and
  \<open>v.relevant_docs.map\<close> is called, which throws unless \<open>v.relevant_docs\<close> is an array.
  An exception while rendering takes the whole page down.
\<close>

datatype rendering = Hidden | Shown | Throws

definition response_display :: "js_value \<Rightarrow> rendering" where
  "response_display v =
     (if \<not> truthy v then Hidden
      else if child_ok (js_get v (js ''summary''))
           \<and> (case js_get v (js ''relevant_docs'') of
                 JArr docs \<Rightarrow> list_all doc_ok docs
               | _ \<Rightarrow> False)
      then Shown
      else Throws)"

section \<open>The response of the backend\<close>

text \<open>
  Modelled from the spec: the document type of the HTTP contract. The backend that
  declares it (\<open>backend/main.py\<close>) is not among the sources. A document is an object
  with an identifier \<open>doc_id\<close>, texts \<open>title\<close> and \<open>excerpt\<close> and a \<open>relevance_score\<close>
  between 0 and 1.
\<close>

definition document :: "js_value \<Rightarrow> bool" where
  "document d =
     (case d of
        JObj ps \<Rightarrow>
          (is_string (js_get d (js ''doc_id'')) \<or> is_number (js_get d (js ''doc_id'')))
          \<and> is_string (js_get d (js ''title''))
          \<and> is_string (js_get d (js ''excerpt''))
          \<and> (case js_get d (js ''relevance_score'') of
                JNum n \<Rightarrow> 0 \<le> n \<and> n \<le> 1
              | _ \<Rightarrow> False)
      | _ \<Rightarrow> False)"

text \<open>
  Modelled from the spec: the success body of \<open>POST /generate\<close>, declared by the same
  missing backend. A SearchResponse is an object with a text \<open>summary\<close> and an array
  \<open>relevant_docs\<close> of documents.
\<close>

definition search_response :: "js_value \<Rightarrow> bool" where
  "search_response v =
     (case v of
        JObj ps \<Rightarrow>
          is_string (js_get v (js ''summary''))
          \<and> (case js_get v (js ''relevant_docs'') of
                JArr docs \<Rightarrow> list_all document docs
              | _ \<Rightarrow> False)
      | _ \<Rightarrow> False)"

section \<open>The events of the page\<close>

text \<open>Lines 45 to 49; \<open>key\<close> is \<open>e.key\<close>.\<close>

definition handleKeyPress :: "js_string \<Rightarrow> app \<Rightarrow> effect list" where
  "handleKeyPress key s =
     (if key = js ''Enter'' \<and> \<not> loading s then handleSearch (query s) else [])"

text \<open>
  The page as a whole: the cells and the requests that have been issued and have not
  settled yet. An event is a change of the input (line 80), a key press in it (line 81),
  a click on the button (line 87) or the settling of the oldest outstanding request.
  The input and the button are disabled while \<open>loading\<close> holds (lines 84 and 88): a
  disabled control delivers neither changes nor clicks. Key presses are passed to
  \<open>handleKeyPress\<close>, which has its own test.
\<close>

record sys =
  cells :: app
  inflight :: "request list"

definition start :: sys where
  "start = \<lparr>cells = init, inflight = []\<rparr>"

definition dispatch :: "effect list \<Rightarrow> sys \<Rightarrow> sys" where
  "dispatch es t = \<lparr>cells = perform es (cells t), inflight = inflight t @ fetches es\<rparr>"

datatype event = Change js_string | KeyPress js_string | Click | Settle fetch_result

fun step :: "event \<Rightarrow> sys \<Rightarrow> sys" where
  "step (Change v) t = (if loading (cells t) then t else dispatch [SetQuery v] t)"
| "step (KeyPress key) t = dispatch (handleKeyPress key (cells t)) t"
| "step Click t =
     (if loading (cells t) then t else dispatch (handleSearch (query (cells t))) t)"
| "step (Settle r) t =
     (case inflight t of
        [] \<Rightarrow> t
      | req # rest \<Rightarrow> dispatch (handleSearch_resume r) (t\<lparr>inflight := rest\<rparr>))"

definition run :: "event list \<Rightarrow> sys \<Rightarrow> sys" where
  "run evs t = fold step evs t"

text \<open>
  The invariant of the page: either nothing is outstanding and \<open>loading\<close> is false, or
  exactly one request is outstanding and \<open>loading\<close> is true.
\<close>

definition consistent :: "sys \<Rightarrow> bool" where
  "consistent t \<longleftrightarrow>
     (inflight t = [] \<and> \<not> loading (cells t)) \<or> (length (inflight t) = 1 \<and> loading (cells t))"

section \<open>Basic facts\<close>

lemma dropWhile_all_iff: "list_all P (dropWhile P xs) \<longleftrightarrow> list_all P xs"
  by (induction xs) auto

lemma trim_empty_iff: "trim s = [] \<longleftrightarrow> list_all is_white_space s"
proof -
  have "trim s = [] \<longleftrightarrow> list_all is_white_space (dropWhile is_white_space s)"
    by (simp add: trim_def dropWhile_eq_Nil_conv list_all_iff)
  then show ?thesis
    by (simp add: dropWhile_all_iff)
qed

lemma perform_Nil: "perform [] s = s"
  by (simp add: perform_def)

lemma perform_Cons: "perform (e # es) s = perform es (apply_effect e s)"
  by (simp add: perform_def)

lemma perform_append: "perform (es @ fs) s = perform fs (perform es s)"
  by (simp add: perform_def)

lemma handleSearch_blank:
  "trim q = [] \<Longrightarrow> handleSearch q = [SetError (JStr (js ''Please enter a search query''))]"
  by (simp add: handleSearch_def)

lemma handleSearch_nonblank:
  "trim q \<noteq> [] \<Longrightarrow> handleSearch q =
     [SetLoading True, SetError JNull, SetResponse JNull,
      Fetch \<lparr>url = js ''http://localhost:8000/generate'',
             req_method = js ''POST'',
             headers = [(js ''Content-Type'', js ''application/json'')],
             body = JSON_stringify (JObj [(js ''query'', JStr (trim q))])\<rparr>]"
  by (simp add: handleSearch_def)

lemma fetches_append: "fetches (es @ fs) = fetches es @ fetches fs"
  by (induction es rule: fetches.induct) simp_all

lemma fetches_catch: "fetches (catch err) = []"
  by (simp add: catch_def)

lemma fetches_resume: "fetches (handleSearch_resume r) = []"
  by (simp add: handleSearch_resume_def fetches_append fetches_catch
      split: fetch_result.split json_result.split)

lemma handleSearch_run_nonblank:
  "trim q \<noteq> [] \<Longrightarrow> handleSearch_run q r = handleSearch q @ handleSearch_resume r"
  by (simp add: handleSearch_run_def handleSearch_nonblank)

lemma perform_handleSearch_nonblank:
  "trim (query s) \<noteq> [] \<Longrightarrow>
     perform (handleSearch (query s)) s = s\<lparr>response := JNull, loading := True, error := JNull\<rparr>"
  by (simp add: handleSearch_nonblank perform_Cons perform_Nil)

lemma perform_catch:
  "perform (catch err) s =
     s\<lparr>error := js_or (message err)
        (JStr (js ''Failed to fetch response. Please ensure the backend is running.''))\<rparr>"
  by (simp add: catch_def perform_Cons perform_Nil)

lemma trim_example: "trim (js ''  contract law '') = js ''contract law''"
  by (simp add: trim_def js_def is_white_space_def)

lemma unat_digit: "d < 10 \<Longrightarrow> unat (digit d - 0x30) = d"
  by (simp add: digit_def unat_of_nat)

lemma digits_value_toString: "digits_value (toString n) = n"
proof (induction n rule: toString.induct)
  case (1 n)
  show ?case
  proof (cases "n < 10")
    case True
    then show ?thesis
      by (simp add: toString.simps [of n] digits_value_def unat_digit)
  next
    case False
    with 1 have "digits_value (toString (n div 10)) = n div 10"
      by simp
    with False show ?thesis
      by (simp add: toString.simps [of n] digits_value_def unat_digit)
  qed
qed

lemma toString_404: "toString 404 = js ''404''"
  by (simp add: toString.simps [of 404] toString.simps [of 40] toString.simps [of 4]
      digit_def js_def)

lemma perform_run_nonblank:
  "trim (query s) \<noteq> [] \<Longrightarrow>
     perform (handleSearch_run (query s) r) s =
     perform (handleSearch_resume r) (s\<lparr>response := JNull, loading := True, error := JNull\<rparr>)"
  by (simp add: handleSearch_run_nonblank perform_append perform_handleSearch_nonblank)

lemma resume_success:
  "ok res \<Longrightarrow> json res = JsonResolved data \<Longrightarrow>
     handleSearch_resume (FetchResolved res) = [SetResponse data, SetLoading False]"
  by (simp add: handleSearch_resume_def)

lemma resume_http_error:
  "\<not> ok res \<Longrightarrow>
     handleSearch_resume (FetchResolved res) =
     catch (Error (JStr (js ''HTTP error! status: '' @ toString (status res)))) @ [SetLoading False]"
  by (simp add: handleSearch_resume_def)

lemma resume_fetch_rejected:
  "handleSearch_resume (FetchRejected err) = catch err @ [SetLoading False]"
  by (simp add: handleSearch_resume_def)

lemma resume_json_rejected:
  "ok res \<Longrightarrow> json res = JsonRejected err \<Longrightarrow>
     handleSearch_resume (FetchResolved res) = catch err @ [SetLoading False]"
  by (simp add: handleSearch_resume_def)

lemma loading_perform_resume: "\<not> loading (perform (handleSearch_resume r) s)"
  by (simp add: handleSearch_resume_def catch_def perform_append perform_Cons perform_Nil
      split: fetch_result.split json_result.split)

lemma query_perform_handleSearch: "query (perform (handleSearch q) s) = query s"
  by (simp add: handleSearch_def perform_Cons perform_Nil)

lemma query_perform_resume: "query (perform (handleSearch_resume r) s) = query s"
  by (simp add: handleSearch_resume_def catch_def perform_append perform_Cons perform_Nil
      split: fetch_result.split json_result.split)

lemma query_perform_handleKeyPress: "query (perform (handleKeyPress key s) s) = query s"
  by (simp add: handleKeyPress_def query_perform_handleSearch perform_Nil)

lemma dispatch_Nil: "dispatch [] t = t"
  by (simp add: dispatch_def perform_Nil)

lemma run_Nil: "run [] t = t"
  by (simp add: run_def)

lemma run_Cons: "run (e # evs) t = run evs (step e t)"
  by (simp add: run_def)

lemma consistent_start: "consistent start"
  by (simp add: consistent_def start_def init_def)

lemma consistent_handleSearch:
  assumes "consistent t" and "\<not> loading (cells t)"
  shows "consistent (dispatch (handleSearch (query (cells t))) t)"
proof -
  from assms have "inflight t = []"
    by (auto simp: consistent_def)
  then show ?thesis
    using assms(2)
    by (cases "trim (query (cells t)) = []")
      (simp_all add: consistent_def dispatch_def handleSearch_blank handleSearch_nonblank
        perform_Cons perform_Nil)
qed

lemma consistent_step: "consistent t \<Longrightarrow> consistent (step e t)"
proof (cases e)
  case (Change v)
  assume "consistent t"
  then show ?thesis
    by (auto simp: Change consistent_def dispatch_def perform_Cons perform_Nil)
next
  case (KeyPress key)
  assume c: "consistent t"
  show ?thesis
  proof (cases "key = js ''Enter'' \<and> \<not> loading (cells t)")
    case True
    then have "step e t = dispatch (handleSearch (query (cells t))) t"
      by (simp add: KeyPress handleKeyPress_def)
    with c True show ?thesis
      by (simp add: consistent_handleSearch)
  next
    case False
    then have "handleKeyPress key (cells t) = []"
      by (auto simp: handleKeyPress_def)
    with c show ?thesis
      by (simp add: KeyPress dispatch_Nil)
  qed
next
  case Click
  assume "consistent t"
  then show ?thesis
    by (simp add: Click consistent_handleSearch)
next
  case (Settle r)
  assume c: "consistent t"
  show ?thesis
  proof (cases "inflight t")
    case Nil
    with c show ?thesis
      by (simp add: Settle)
  next
    case (Cons req rest)
    with c have "rest = []"
      by (simp add: consistent_def)
    with Cons show ?thesis
      by (simp add: Settle consistent_def dispatch_def loading_perform_resume fetches_resume)
  qed
qed

lemma consistent_run: "consistent t \<Longrightarrow> consistent (run evs t)"
  by (induction evs arbitrary: t) (simp_all add: run_Nil run_Cons consistent_step)

lemma is_string_child_ok: "is_string v \<Longrightarrow> child_ok v"
  by (cases v) (simp_all add: is_string_def)

lemma is_number_child_ok: "is_number v \<Longrightarrow> child_ok v"
  by (cases v) (simp_all add: is_number_def)

lemma document_doc_ok: "document d \<Longrightarrow> doc_ok d"
  by (cases d) (auto simp: document_def doc_ok_def is_string_child_ok is_number_child_ok)

lemma documents_doc_ok: "list_all document ds \<Longrightarrow> list_all doc_ok ds"
  by (induction ds) (simp_all add: document_doc_ok)

lemma search_response_truthy: "search_response v \<Longrightarrow> truthy v"
  by (cases v) (simp_all add: search_response_def)

lemma search_response_shown: "search_response v \<Longrightarrow> response_display v = Shown"
proof -
  assume a: "search_response v"
  then obtain ps where v: "v = JObj ps"
    by (cases v) (simp_all add: search_response_def)
  from a v have s: "is_string (js_get v (js ''summary''))"
    by (simp add: search_response_def)
  from a v obtain docs where d: "js_get v (js ''relevant_docs'') = JArr docs"
      and l: "list_all document docs"
    by (auto simp: search_response_def split: js_value.splits)
  from v s d l show ?thesis
    by (simp add: response_display_def is_string_child_ok documents_doc_ok)
qed

lemma truthy_or_fallback:
  "truthy (js_or a (JStr (js ''Failed to fetch response. Please ensure the backend is running.'')))"
  by (simp add: js_or_def js_def)

lemma perform_run_transport_failure:
  assumes "trim (query s) \<noteq> []" and "handleSearch_resume r = catch err @ [SetLoading False]"
  shows "perform (handleSearch_run (query s) r) s
      = s\<lparr>response := JNull, loading := False,
          error := js_or (message err)
            (JStr (js ''Failed to fetch response. Please ensure the backend is running.''))\<rparr>"
  using assms
  by (simp add: perform_run_nonblank perform_append perform_catch perform_Cons perform_Nil)

section \<open>Validation\<close>

text \<open>
  C1. When the query consists of white space only (the empty string included), so that
  its trimmed form is empty, \<open>handleSearch\<close> sets the error cell to
  "Please enter a search query", the error banner is shown, no request is issued (also
  not later: the whole call has no \<open>fetch\<close>), and the other cells are left as they were.
\<close>

theorem submit_blank_query:
  assumes "list_all is_white_space (query s)"
  shows "trim (query s) = []
    \<and> perform (handleSearch (query s)) s = s\<lparr>error := JStr (js ''Please enter a search query'')\<rparr>
    \<and> error_message_shown (perform (handleSearch (query s)) s)
    \<and> fetches (handleSearch (query s)) = []
    \<and> fetches (handleSearch_run (query s) r) = []"
proof -
  from assms have t: "trim (query s) = []"
    by (simp add: trim_empty_iff)
  have h: "handleSearch (query s) = [SetError (JStr (js ''Please enter a search query''))]"
    using t by (rule handleSearch_blank)
  have p: "perform (handleSearch (query s)) s = s\<lparr>error := JStr (js ''Please enter a search query'')\<rparr>"
    by (simp add: h perform_Cons perform_Nil)
  have e: "error_message_shown (perform (handleSearch (query s)) s)"
    by (simp add: p error_message_shown_def js_def)
  have f: "fetches (handleSearch (query s)) = []"
    by (simp add: h)
  have g: "fetches (handleSearch_run (query s) r) = []"
    by (simp add: handleSearch_run_def f)
  from t p e f g show ?thesis by simp
qed

theorem submit_blank_query_witness:
  "perform (handleSearch (js ''  '')) (init\<lparr>query := js ''  ''\<rparr>)
     = \<lparr>query = js ''  '', response = JNull, loading = False,
        error = JStr (js ''Please enter a search query'')\<rparr>
   \<and> fetches (handleSearch_run (js ''  '') (FetchRejected (Error JUndefined))) = []"
proof -
  have w: "list_all is_white_space (query (init\<lparr>query := js ''  ''\<rparr>))"
    by (simp add: js_def is_white_space_def)
  show ?thesis
    using submit_blank_query [OF w, of "FetchRejected (Error JUndefined)"]
    by (simp add: init_def)
qed

section \<open>The request\<close>

text \<open>
  C2. When the trimmed query is not empty, one whole call of \<open>handleSearch\<close>, however
  its request settles, calls \<open>fetch\<close> exactly once: with the URL of \<open>/generate\<close>, the
  method POST, the single header Content-Type: application/json and, as body, the
  serialised object whose only field \<open>query\<close> is the trimmed query.
\<close>

theorem submit_issues_one_request:
  assumes "trim (query s) \<noteq> []"
  shows "fetches (handleSearch_run (query s) r) =
    [\<lparr>url = js ''http://localhost:8000/generate'',
      req_method = js ''POST'',
      headers = [(js ''Content-Type'', js ''application/json'')],
      body = JSON_stringify (JObj [(js ''query'', JStr (trim (query s)))])\<rparr>]"
proof -
  have "fetches (handleSearch_run (query s) r)
      = fetches (handleSearch (query s)) @ fetches (handleSearch_resume r)"
    using assms by (simp add: handleSearch_run_nonblank fetches_append)
  also have "\<dots> = fetches (handleSearch (query s))"
    by (simp add: fetches_resume)
  finally show ?thesis
    using assms by (simp add: handleSearch_nonblank)
qed

theorem submit_issues_one_request_witness:
  "fetches (handleSearch_run (js ''  contract law '')
      (FetchResolved \<lparr>status = 500, json = JsonRejected (Error JUndefined)\<rparr>)) =
    [\<lparr>url = js ''http://localhost:8000/generate'',
      req_method = js ''POST'',
      headers = [(js ''Content-Type'', js ''application/json'')],
      body = JSON_stringify (JObj [(js ''query'', JStr (js ''contract law''))])\<rparr>]"
proof -
  have w: "trim (query (init\<lparr>query := js ''  contract law ''\<rparr>)) \<noteq> []"
    by (simp add: trim_example) (simp add: js_def)
  show ?thesis
    using submit_issues_one_request [OF w]
    by (simp add: trim_example)
qed

section \<open>How a request ends\<close>

text \<open>
  C3. When the trimmed query is not empty and the request resolves with a status from
  200 to 299 and a body that decodes to \<open>data\<close>, the call ends with the response cell
  holding exactly \<open>data\<close>, the error cell null and \<open>loading\<close> false. When \<open>data\<close> is a
  SearchResponse, as the HTTP contract has it, this state is Success: the guard of the
  result panel holds, the panel renders, and neither the error banner nor the initial
  panel is shown.
\<close>

theorem success_stores_parsed_body:
  assumes "trim (query s) \<noteq> []" and "ok res" and "json res = JsonResolved data"
  shows "perform (handleSearch_run (query s) (FetchResolved res)) s
      = s\<lparr>response := data, loading := False, error := JNull\<rparr>
    \<and> \<not> error_message_shown (perform (handleSearch_run (query s) (FetchResolved res)) s)
    \<and> \<not> loading (perform (handleSearch_run (query s) (FetchResolved res)) s)
    \<and> (search_response data \<longrightarrow>
          response_display_shown (perform (handleSearch_run (query s) (FetchResolved res)) s)
        \<and> response_display
            (response (perform (handleSearch_run (query s) (FetchResolved res)) s)) = Shown
        \<and> \<not> initial_state_shown (perform (handleSearch_run (query s) (FetchResolved res)) s))"
proof -
  have e: "perform (handleSearch_run (query s) (FetchResolved res)) s
      = s\<lparr>response := data, loading := False, error := JNull\<rparr>"
    using assms
    by (simp add: perform_run_nonblank resume_success perform_Cons perform_Nil)
  show ?thesis
    unfolding e
    by (simp add: response_display_shown_def error_message_shown_def initial_state_shown_def
        search_response_truthy search_response_shown)
qed

theorem success_stores_parsed_body_witness:
  "perform (handleSearch_run (js ''contract law'')
      (FetchResolved \<lparr>status = 200,
         json = JsonResolved (JObj [(js ''summary'', JStr (js ''S'')),
                                    (js ''relevant_docs'', JArr [])])\<rparr>))
      (init\<lparr>query := js ''contract law''\<rparr>)
    = \<lparr>query = js ''contract law'',
       response = JObj [(js ''summary'', JStr (js ''S'')), (js ''relevant_docs'', JArr [])],
       loading = False, error = JNull\<rparr>
   \<and> response_display_shown (perform (handleSearch_run (js ''contract law'')
      (FetchResolved \<lparr>status = 200,
         json = JsonResolved (JObj [(js ''summary'', JStr (js ''S'')),
                                    (js ''relevant_docs'', JArr [])])\<rparr>))
      (init\<lparr>query := js ''contract law''\<rparr>))
   \<and> response_display (response (perform (handleSearch_run (js ''contract law'')
      (FetchResolved \<lparr>status = 200,
         json = JsonResolved (JObj [(js ''summary'', JStr (js ''S'')),
                                    (js ''relevant_docs'', JArr [])])\<rparr>))
      (init\<lparr>query := js ''contract law''\<rparr>))) = Shown"
proof -
  have q: "trim (query (init\<lparr>query := js ''contract law''\<rparr>)) \<noteq> []"
    by (simp add: trim_def js_def is_white_space_def)
  have k: "ok \<lparr>status = 200,
      json = JsonResolved (JObj [(js ''summary'', JStr (js ''S'')),
                                 (js ''relevant_docs'', JArr [])])\<rparr>"
    by (simp add: ok_def)
  have j: "json \<lparr>status = 200,
      json = JsonResolved (JObj [(js ''summary'', JStr (js ''S'')),
                                 (js ''relevant_docs'', JArr [])])\<rparr>
    = JsonResolved (JObj [(js ''summary'', JStr (js ''S'')), (js ''relevant_docs'', JArr [])])"
    by simp
  have c: "search_response (JObj [(js ''summary'', JStr (js ''S'')), (js ''relevant_docs'', JArr [])])"
    by (simp add: search_response_def js_get_def is_string_def js_def)
  have qe: "query (init\<lparr>query := js ''contract law''\<rparr>) = js ''contract law''"
    by simp
  note t = success_stores_parsed_body [OF q k j, unfolded qe]
  from t have 1: "perform (handleSearch_run (js ''contract law'')
      (FetchResolved \<lparr>status = 200,
         json = JsonResolved (JObj [(js ''summary'', JStr (js ''S'')),
                                    (js ''relevant_docs'', JArr [])])\<rparr>))
      (init\<lparr>query := js ''contract law''\<rparr>)
    = \<lparr>query = js ''contract law'',
       response = JObj [(js ''summary'', JStr (js ''S'')), (js ''relevant_docs'', JArr [])],
       loading = False, error = JNull\<rparr>"
    by (simp add: init_def)
  from t c have 2: "response_display_shown (perform (handleSearch_run (js ''contract law'')
      (FetchResolved \<lparr>status = 200,
         json = JsonResolved (JObj [(js ''summary'', JStr (js ''S'')),
                                    (js ''relevant_docs'', JArr [])])\<rparr>))
      (init\<lparr>query := js ''contract law''\<rparr>))
   \<and> response_display (response (perform (handleSearch_run (js ''contract law'')
      (FetchResolved \<lparr>status = 200,
         json = JsonResolved (JObj [(js ''summary'', JStr (js ''S'')),
                                    (js ''relevant_docs'', JArr [])])\<rparr>))
      (init\<lparr>query := js ''contract law''\<rparr>))) = Shown"
    by blast
  from 1 2 show ?thesis
    by blast
qed

text \<open>
  C4. When the trimmed query is not empty and the request resolves with a status
  outside 200 to 299, the call ends with the error cell holding
  "HTTP error! status: " followed by the status in decimal, no result and \<open>loading\<close>
  false; the error banner is shown.
\<close>

theorem http_error_status:
  assumes "trim (query s) \<noteq> []" and "\<not> ok res"
  shows "perform (handleSearch_run (query s) (FetchResolved res)) s
      = s\<lparr>response := JNull, loading := False,
          error := JStr (js ''HTTP error! status: '' @ toString (status res))\<rparr>
    \<and> error_message_shown (perform (handleSearch_run (query s) (FetchResolved res)) s)
    \<and> \<not> response_display_shown (perform (handleSearch_run (query s) (FetchResolved res)) s)"
proof -
  have m: "js ''HTTP error! status: '' @ toString (status res) \<noteq> []"
    by (simp add: js_def)
  have "perform (handleSearch_run (query s) (FetchResolved res)) s
      = s\<lparr>response := JNull, loading := False,
          error := JStr (js ''HTTP error! status: '' @ toString (status res))\<rparr>"
    using assms m
    by (simp add: perform_run_nonblank resume_http_error perform_append perform_catch
        perform_Cons perform_Nil js_or_def)
  then show ?thesis
    using m by (simp add: error_message_shown_def response_display_shown_def)
qed

theorem http_error_status_witness:
  "perform (handleSearch_run (js ''contract law'')
      (FetchResolved \<lparr>status = 404, json = JsonResolved JNull\<rparr>))
      (init\<lparr>query := js ''contract law''\<rparr>)
    = \<lparr>query = js ''contract law'', response = JNull, loading = False,
       error = JStr (js ''HTTP error! status: 404'')\<rparr>"
proof -
  have q: "trim (query (init\<lparr>query := js ''contract law''\<rparr>)) \<noteq> []"
    by (simp add: trim_def js_def is_white_space_def)
  have k: "\<not> ok \<lparr>status = 404, json = JsonResolved JNull\<rparr>"
    by (simp add: ok_def)
  show ?thesis
    using http_error_status [OF q k]
    by (simp add: init_def toString_404) (simp add: js_def)
qed

text \<open>
  C5. When the trimmed query is not empty and the request fails in transport (the
  \<open>fetch\<close> rejects, or the response has a status from 200 to 299 and its body does not
  decode), the call ends with no result, \<open>loading\<close> false and the error banner shown.
  The error cell holds the failure's message when that is a non-empty string, and
  "Failed to fetch response. Please ensure the backend is running." when the failure has
  no message (it is undefined or the empty string, as for an error built without one).
\<close>

theorem transport_failure_message:
  assumes "trim (query s) \<noteq> []"
    and "r = FetchRejected err \<or> (\<exists>res. r = FetchResolved res \<and> ok res \<and> json res = JsonRejected err)"
  shows "perform (handleSearch_run (query s) r) s
      = s\<lparr>response := JNull, loading := False,
          error := (if truthy (message err) then message err
                    else JStr (js ''Failed to fetch response. Please ensure the backend is running.''))\<rparr>
    \<and> (\<forall>m. message err = JStr m \<and> m \<noteq> [] \<longrightarrow>
          error (perform (handleSearch_run (query s) r) s) = JStr m)
    \<and> (message err = JUndefined \<or> message err = JStr [] \<longrightarrow>
          error (perform (handleSearch_run (query s) r) s)
            = JStr (js ''Failed to fetch response. Please ensure the backend is running.''))
    \<and> error_message_shown (perform (handleSearch_run (query s) r) s)"
proof -
  have c: "handleSearch_resume r = catch err @ [SetLoading False]"
    using assms(2) by (auto simp: resume_fetch_rejected resume_json_rejected)
  have e: "perform (handleSearch_run (query s) r) s
      = s\<lparr>response := JNull, loading := False,
          error := (if truthy (message err) then message err
                    else JStr (js ''Failed to fetch response. Please ensure the backend is running.''))\<rparr>"
    using assms(1)
    by (simp add: perform_run_nonblank c perform_append perform_catch perform_Cons perform_Nil
        js_or_def)
  have t: "truthy (JStr (js ''Failed to fetch response. Please ensure the backend is running.''))"
    by (simp add: js_def)
  show ?thesis
    unfolding e using t by (auto simp: error_message_shown_def)
qed

theorem transport_failure_message_witness:
  "error (perform (handleSearch_run (js ''contract law'')
        (FetchRejected (Error (JStr (js ''Failed to fetch'')))))
      (init\<lparr>query := js ''contract law''\<rparr>))
    = JStr (js ''Failed to fetch'')
   \<and> error (perform (handleSearch_run (js ''contract law'')
        (FetchResolved \<lparr>status = 200, json = JsonRejected (Error (JStr []))\<rparr>))
      (init\<lparr>query := js ''contract law''\<rparr>))
    = JStr (js ''Failed to fetch response. Please ensure the backend is running.'')"
proof -
  have q: "trim (query (init\<lparr>query := js ''contract law''\<rparr>)) \<noteq> []"
    by (simp add: trim_def js_def is_white_space_def)
  have a: "FetchRejected (Error (JStr (js ''Failed to fetch''))) = FetchRejected (Error (JStr (js ''Failed to fetch'')))
      \<or> (\<exists>res. FetchRejected (Error (JStr (js ''Failed to fetch''))) = FetchResolved res
            \<and> ok res \<and> json res = JsonRejected (Error (JStr (js ''Failed to fetch''))))"
    by simp
  have b: "FetchResolved \<lparr>status = 200, json = JsonRejected (Error (JStr []))\<rparr> = FetchRejected (Error (JStr []))
      \<or> (\<exists>res. FetchResolved \<lparr>status = 200, json = JsonRejected (Error (JStr []))\<rparr> = FetchResolved res
            \<and> ok res \<and> json res = JsonRejected (Error (JStr [])))"
    by (simp add: ok_def)
  have n: "js ''Failed to fetch'' \<noteq> []"
    by (simp add: js_def)
  show ?thesis
    using transport_failure_message [OF q a] transport_failure_message [OF q b] n
    by (simp add: init_def)
qed

section \<open>Loading\<close>

text \<open>
  C6. When the trimmed query is not empty, one whole call of \<open>handleSearch\<close> whose
  request settles, in whichever way, calls \<open>setLoading(false)\<close> exactly once, as its last
  effect, and ends with \<open>loading\<close> false. A response with a status from 200 to 299 whose
  body does not decode is handled exactly as a rejected \<open>fetch\<close> with the same error: the
  call ends in Error, the error cell holding the error's message or, when that is
  falsy, the fixed text; the error banner is shown and no result is.
\<close>

theorem loading_cleared_once:
  assumes "trim (query s) \<noteq> []"
  shows "length (filter (\<lambda>e. e = SetLoading False) (handleSearch_run (query s) r)) = 1
    \<and> last (handleSearch_run (query s) r) = SetLoading False
    \<and> loading (perform (handleSearch (query s)) s)
    \<and> \<not> loading (perform (handleSearch_run (query s) r) s)
    \<and> (\<forall>c err. 200 \<le> c \<and> c \<le> 299 \<longrightarrow>
         handleSearch_run (query s) (FetchResolved \<lparr>status = c, json = JsonRejected err\<rparr>)
           = handleSearch_run (query s) (FetchRejected err)
         \<and> perform (handleSearch_run (query s)
              (FetchResolved \<lparr>status = c, json = JsonRejected err\<rparr>)) s
           = s\<lparr>response := JNull, loading := False,
               error := js_or (message err)
                 (JStr (js ''Failed to fetch response. Please ensure the backend is running.''))\<rparr>
         \<and> error_message_shown (perform (handleSearch_run (query s)
              (FetchResolved \<lparr>status = c, json = JsonRejected err\<rparr>)) s)
         \<and> \<not> response_display_shown (perform (handleSearch_run (query s)
              (FetchResolved \<lparr>status = c, json = JsonRejected err\<rparr>)) s))"
proof -
  have n: "length (filter (\<lambda>e. e = SetLoading False) (handleSearch_resume r)) = 1"
    by (simp add: handleSearch_resume_def catch_def split: fetch_result.split json_result.split)
  have l: "last (handleSearch_resume r) = SetLoading False"
    by (simp add: handleSearch_resume_def)
  have d: "handleSearch_resume (FetchResolved \<lparr>status = c, json = JsonRejected err\<rparr>)
      = catch err @ [SetLoading False]" if "200 \<le> c \<and> c \<le> 299" for c err
    using that by (simp add: resume_json_rejected ok_def)
  have 1: "length (filter (\<lambda>e. e = SetLoading False) (handleSearch_run (query s) r)) = 1"
    using assms n by (simp add: handleSearch_run_nonblank handleSearch_nonblank)
  have 2: "last (handleSearch_run (query s) r) = SetLoading False"
    using assms l by (simp add: handleSearch_run_nonblank handleSearch_resume_def)
  have 3: "loading (perform (handleSearch (query s)) s)"
    using assms by (simp add: perform_handleSearch_nonblank)
  have 4: "\<not> loading (perform (handleSearch_run (query s) r) s)"
    using assms by (simp add: perform_run_nonblank loading_perform_resume)
  have 5: "handleSearch_run (query s) (FetchResolved \<lparr>status = c, json = JsonRejected err\<rparr>)
      = handleSearch_run (query s) (FetchRejected err)" if "200 \<le> c \<and> c \<le> 299" for c err
    using assms d [OF that] by (simp add: handleSearch_run_nonblank resume_fetch_rejected)
  have 6: "perform (handleSearch_run (query s)
        (FetchResolved \<lparr>status = c, json = JsonRejected err\<rparr>)) s
      = s\<lparr>response := JNull, loading := False,
          error := js_or (message err)
            (JStr (js ''Failed to fetch response. Please ensure the backend is running.''))\<rparr>"
    if "200 \<le> c \<and> c \<le> 299" for c err
    using assms d [OF that] by (rule perform_run_transport_failure)
  have 7: "error_message_shown (perform (handleSearch_run (query s)
        (FetchResolved \<lparr>status = c, json = JsonRejected err\<rparr>)) s)
      \<and> \<not> response_display_shown (perform (handleSearch_run (query s)
        (FetchResolved \<lparr>status = c, json = JsonRejected err\<rparr>)) s)"
    if "200 \<le> c \<and> c \<le> 299" for c err
    unfolding 6 [OF that]
    by (simp add: error_message_shown_def response_display_shown_def truthy_or_fallback)
  from 1 2 3 4 5 6 7 show ?thesis by blast
qed

theorem loading_cleared_once_witness:
  "length (filter (\<lambda>e. e = SetLoading False) (handleSearch_run (js ''contract law'')
      (FetchResolved \<lparr>status = 200, json = JsonRejected (Error (JStr (js ''Unexpected token'')))\<rparr>))) = 1
   \<and> handleSearch_run (js ''contract law'')
        (FetchResolved \<lparr>status = 200, json = JsonRejected (Error (JStr (js ''Unexpected token'')))\<rparr>)
      = handleSearch_run (js ''contract law'')
        (FetchRejected (Error (JStr (js ''Unexpected token''))))
   \<and> perform (handleSearch_run (js ''contract law'')
        (FetchResolved \<lparr>status = 200, json = JsonRejected (Error (JStr (js ''Unexpected token'')))\<rparr>))
        (init\<lparr>query := js ''contract law''\<rparr>)
      = \<lparr>query = js ''contract law'', response = JNull, loading = False,
         error = JStr (js ''Unexpected token'')\<rparr>"
proof -
  have q: "trim (query (init\<lparr>query := js ''contract law''\<rparr>)) \<noteq> []"
    by (simp add: trim_def js_def is_white_space_def)
  have m: "js_or (JStr (js ''Unexpected token''))
      (JStr (js ''Failed to fetch response. Please ensure the backend is running.''))
    = JStr (js ''Unexpected token'')"
    by (simp add: js_or_def js_def)
  have qe: "query (init\<lparr>query := js ''contract law''\<rparr>) = js ''contract law''"
    by simp
  note t = loading_cleared_once [OF q,
        of "FetchResolved \<lparr>status = 200, json = JsonRejected (Error (JStr (js ''Unexpected token'')))\<rparr>",
        unfolded qe]
  from t have 1: "length (filter (\<lambda>e. e = SetLoading False) (handleSearch_run (js ''contract law'')
      (FetchResolved \<lparr>status = 200, json = JsonRejected (Error (JStr (js ''Unexpected token'')))\<rparr>))) = 1"
    by blast
  have r: "(200::nat) \<le> 200 \<and> (200::nat) \<le> 299"
    by simp
  from t r have 2: "handleSearch_run (js ''contract law'')
        (FetchResolved \<lparr>status = 200, json = JsonRejected (Error (JStr (js ''Unexpected token'')))\<rparr>)
      = handleSearch_run (js ''contract law'')
        (FetchRejected (Error (JStr (js ''Unexpected token''))))"
    by blast
  from t r have "perform (handleSearch_run (js ''contract law'')
        (FetchResolved \<lparr>status = 200, json = JsonRejected (Error (JStr (js ''Unexpected token'')))\<rparr>))
        (init\<lparr>query := js ''contract law''\<rparr>)
      = (init\<lparr>query := js ''contract law''\<rparr>)\<lparr>response := JNull, loading := False,
          error := js_or (message (Error (JStr (js ''Unexpected token''))))
            (JStr (js ''Failed to fetch response. Please ensure the backend is running.''))\<rparr>"
    by blast
  with m have 3: "perform (handleSearch_run (js ''contract law'')
        (FetchResolved \<lparr>status = 200, json = JsonRejected (Error (JStr (js ''Unexpected token'')))\<rparr>))
        (init\<lparr>query := js ''contract law''\<rparr>)
      = \<lparr>query = js ''contract law'', response = JNull, loading = False,
         error = JStr (js ''Unexpected token'')\<rparr>"
    by (simp add: init_def)
  from 1 2 3 show ?thesis
    by blast
qed

text \<open>
  C7. When the trimmed query is not empty, the synchronous part of \<open>handleSearch\<close>
  calls \<open>setLoading(true)\<close>, \<open>setError(null)\<close> and \<open>setResponse(null)\<close> before it reaches
  the \<open>fetch\<close>, whatever the cells held before. In the state in which the call is
  suspended, the first one in which \<open>loading\<close> can be seen, the previous result and the
  previous error are gone: neither the result panel nor the error banner is shown.
\<close>

theorem new_search_clears_previous:
  assumes "trim (query s) \<noteq> []"
  shows "(\<exists>req. handleSearch (query s)
            = [SetLoading True, SetError JNull, SetResponse JNull, Fetch req])
    \<and> perform (handleSearch (query s)) s = s\<lparr>response := JNull, loading := True, error := JNull\<rparr>
    \<and> loading (perform (handleSearch (query s)) s)
    \<and> \<not> response_display_shown (perform (handleSearch (query s)) s)
    \<and> \<not> error_message_shown (perform (handleSearch (query s)) s)"
proof -
  have "\<exists>req. handleSearch (query s)
            = [SetLoading True, SetError JNull, SetResponse JNull, Fetch req]"
    using assms by (simp add: handleSearch_nonblank)
  moreover have "perform (handleSearch (query s)) s
      = s\<lparr>response := JNull, loading := True, error := JNull\<rparr>"
    using assms by (rule perform_handleSearch_nonblank)
  ultimately show ?thesis
    by (simp add: response_display_shown_def error_message_shown_def)
qed

theorem new_search_clears_previous_witness:
  "perform (handleSearch (js ''tort''))
      \<lparr>query = js ''tort'',
       response = JObj [(js ''summary'', JStr (js ''S'')), (js ''relevant_docs'', JArr [])],
       loading = False, error = JNull\<rparr>
    = \<lparr>query = js ''tort'', response = JNull, loading = True, error = JNull\<rparr>
   \<and> perform (handleSearch (js ''tort''))
      \<lparr>query = js ''tort'', response = JNull, loading = False,
       error = JStr (js ''HTTP error! status: 404'')\<rparr>
    = \<lparr>query = js ''tort'', response = JNull, loading = True, error = JNull\<rparr>"
proof -
  have q: "trim (js ''tort'') \<noteq> []"
    by (simp add: trim_def js_def is_white_space_def)
  show ?thesis
    using q
      new_search_clears_previous [of "\<lparr>query = js ''tort'',
         response = JObj [(js ''summary'', JStr (js ''S'')), (js ''relevant_docs'', JArr [])],
         loading = False, error = JNull\<rparr>"]
      new_search_clears_previous [of "\<lparr>query = js ''tort'', response = JNull, loading = False,
         error = JStr (js ''HTTP error! status: 404'')\<rparr>"]
    by simp
qed

section \<open>One request at a time\<close>

text \<open>
  C9. While \<open>loading\<close> holds, \<open>handleKeyPress\<close> does nothing for any key, Enter
  included, and a click on the (disabled) button does nothing: both leave the page as it
  is and issue no request. Hence after every sequence of events from the initial page at
  most one request is outstanding, and one is outstanding exactly while \<open>loading\<close> holds.
\<close>

theorem one_request_in_flight:
  "(loading (cells t) \<longrightarrow>
      handleKeyPress key (cells t) = [] \<and> step (KeyPress key) t = t \<and> step Click t = t)
   \<and> length (inflight (run evs start)) \<le> 1
   \<and> (loading (cells (run evs start)) \<longleftrightarrow> inflight (run evs start) \<noteq> [])"
proof -
  have k: "handleKeyPress key (cells t) = []" if "loading (cells t)"
    using that by (simp add: handleKeyPress_def)
  have "consistent (run evs start)"
    by (simp add: consistent_run consistent_start)
  then have "length (inflight (run evs start)) \<le> 1
      \<and> (loading (cells (run evs start)) \<longleftrightarrow> inflight (run evs start) \<noteq> [])"
    by (auto simp: consistent_def)
  with k show ?thesis
    by (simp add: dispatch_Nil)
qed

theorem one_request_in_flight_witness:
  "loading (cells (run [Change (js ''tort''), Click] start))
   \<and> step (KeyPress (js ''Enter'')) (run [Change (js ''tort''), Click] start)
       = run [Change (js ''tort''), Click] start
   \<and> step Click (run [Change (js ''tort''), Click] start)
       = run [Change (js ''tort''), Click] start
   \<and> length (inflight (run [Change (js ''tort''), Click] start)) \<le> 1"
proof -
  have q: "trim (js ''tort'') \<noteq> []"
    by (simp add: trim_def js_def is_white_space_def)
  have l: "loading (cells (run [Change (js ''tort''), Click] start))"
    using q
    by (simp add: run_Cons run_Nil start_def init_def dispatch_def perform_Cons perform_Nil
        handleSearch_nonblank)
  show ?thesis
    using l one_request_in_flight [of "run [Change (js ''tort''), Click] start"
        "js ''Enter''" "[Change (js ''tort''), Click]"]
    by blast
qed

text \<open>
  C8. Two of the four states can hold together. After a search that succeeded, the
  user empties the input and clicks the button: \<open>handleSearch\<close> returns early with the
  validation error and leaves the previous result in place, so the error banner and the
  result panel are both shown.
\<close>

theorem blank_submit_keeps_previous_result:
  "error_message_shown (cells (run
      [Change (js ''tort''), Click,
       Settle (FetchResolved \<lparr>status = 200,
         json = JsonResolved (JObj [(js ''summary'', JStr (js ''S'')),
                                    (js ''relevant_docs'', JArr [])])\<rparr>),
       Change [], Click] start))
   \<and> response_display_shown (cells (run
      [Change (js ''tort''), Click,
       Settle (FetchResolved \<lparr>status = 200,
         json = JsonResolved (JObj [(js ''summary'', JStr (js ''S'')),
                                    (js ''relevant_docs'', JArr [])])\<rparr>),
       Change [], Click] start))"
proof -
  have q: "trim (js ''tort'') \<noteq> []"
    by (simp add: trim_def js_def is_white_space_def)
  have b: "trim [] = []"
    by (simp add: trim_def)
  have "cells (run
      [Change (js ''tort''), Click,
       Settle (FetchResolved \<lparr>status = 200,
         json = JsonResolved (JObj [(js ''summary'', JStr (js ''S'')),
                                    (js ''relevant_docs'', JArr [])])\<rparr>),
       Change [], Click] start)
    = \<lparr>query = [],
       response = JObj [(js ''summary'', JStr (js ''S'')), (js ''relevant_docs'', JArr [])],
       loading = False,
       error = JStr (js ''Please enter a search query'')\<rparr>"
    using q b
    by (simp add: run_Cons run_Nil start_def init_def dispatch_def perform_Cons perform_Nil
        handleSearch_nonblank handleSearch_blank resume_success ok_def)
  then show ?thesis
    by (simp add: error_message_shown_def response_display_shown_def js_def)
qed

section \<open>The query text\<close>

text \<open>
  C10. \<open>handleSearch\<close> never calls \<open>setQuery\<close>: the query cell is the same after the
  synchronous part, after the continuation and after one whole call, whatever the query
  is and however the request settles; a click, a key press and the settling of a request
  leave it unchanged as well.
\<close>

theorem query_text_unchanged:
  "query (perform (handleSearch (query s)) s) = query s
   \<and> query (perform (handleSearch_resume r) s) = query s
   \<and> query (perform (handleSearch_run (query s) r) s) = query s
   \<and> query (cells (step Click t)) = query (cells t)
   \<and> query (cells (step (KeyPress key) t)) = query (cells t)
   \<and> query (cells (step (Settle r) t)) = query (cells t)"
proof -
  have 1: "query (perform (handleSearch_run (query s) r) s) = query s"
    by (simp add: handleSearch_run_def perform_append query_perform_handleSearch
        query_perform_resume)
  have 2: "query (cells (step Click t)) = query (cells t)"
    by (simp add: dispatch_def query_perform_handleSearch)
  have 3: "query (cells (step (KeyPress key) t)) = query (cells t)"
    by (simp add: dispatch_def query_perform_handleKeyPress)
  have 4: "query (cells (step (Settle r) t)) = query (cells t)"
    by (simp add: dispatch_def query_perform_resume split: list.split)
  from 1 2 3 4 show ?thesis
    by (simp add: query_perform_handleSearch query_perform_resume)
qed

theorem query_text_unchanged_witness:
  "query (perform (handleSearch (js ''  ''))
      \<lparr>query = js ''  '', response = JNull, loading = False, error = JNull\<rparr>) = js ''  ''
   \<and> query (perform (handleSearch_run (js '' tort '')
        (FetchResolved \<lparr>status = 500, json = JsonResolved JNull\<rparr>))
      \<lparr>query = js '' tort '', response = JNull, loading = False, error = JNull\<rparr>) = js '' tort ''"
  using query_text_unchanged [of "\<lparr>query = js ''  '', response = JNull, loading = False, error = JNull\<rparr>"]
    query_text_unchanged [of "\<lparr>query = js '' tort '', response = JNull, loading = False, error = JNull\<rparr>"
      "FetchResolved \<lparr>status = 500, json = JsonResolved JNull\<rparr>"]
  by simp

end
